theory Spec2Isabelle
  imports Complex_Main
begin

section \<open>JavaScript values used by the order backend\<close>

text \<open>
  The handlers of the order-store server (the "v2 with payment plan fields" server) read
  untyped request fields, so the embedding starts with the JavaScript values they can
  hold. Strings are byte strings in UTF-8: the ASCII part is written as a literal, the
  few other characters of the source (the em dash of the status and summary texts, the
  Unicode white space that \<open>trim\<close> removes) are written as their bytes.

  A number is \<open>NaN\<close>, an infinity or a finite double, held as the rational it
  denotes. The conversion of a decimal numeral and the operations \<open>*\<close>, \<open>/\<close> and \<open>-\<close>
  compute the exact result and round it with \<open>to_double\<close> to the nearest double, ties
  to the even mantissa, as IEEE 754 prescribes: 53 bits of mantissa, subnormals below
  \<open>2^-1022\<close>, an infinity from \<open>2^1024\<close>. The two zeros are one value (the code
  cannot tell them apart: both are falsy and both print as \<open>0\<close>).
\<close>

datatype jsnum = NaN | PInf | NInf | Fin rat

datatype jsval =
    JUndefined
  | JNull
  | JBool bool
  | JNum jsnum
  | JStr string
  | JArr "jsval list"
  | JObj

text \<open>\<open>JObj\<close> is a plain object that does not redefine \<open>toString\<close> or \<open>valueOf\<close>.\<close>

datatype error = TypeError

subsection \<open>Numbers\<close>

text \<open>The number of bits of a positive integer.\<close>

function bit_length :: "int \<Rightarrow> int" where
  "bit_length n = (if n \<le> 0 then 0 else 1 + bit_length (n div 2))"
  by pat_completeness auto
termination
  by (relation "measure nat") auto

declare bit_length.simps [simp del]

definition pow2 :: "int \<Rightarrow> rat" where
  "pow2 i = (if 0 \<le> i then 2 ^ nat i else 1 / 2 ^ nat (- i))"

definition pow10 :: "int \<Rightarrow> rat" where
  "pow10 i = (if 0 \<le> i then 10 ^ nat i else 1 / 10 ^ nat (- i))"

text \<open>The binary exponent of a positive value: \<open>2^e \<le> a < 2^(e+1)\<close>.\<close>

definition floor_log2 :: "rat \<Rightarrow> int" where
  "floor_log2 a =
     (if 1 \<le> a then bit_length \<lfloor>a\<rfloor> - 1 else - bit_length (\<lceil>1 / a\<rceil> - 1))"

definition round_half_even :: "rat \<Rightarrow> int" where
  "round_half_even q =
     (let f = \<lfloor>q\<rfloor>; d = q - of_int f
      in if d < 1 / 2 then f
         else if 1 / 2 < d then f + 1
         else if even f then f
         else f + 1)"

text \<open>
  Rounding to a double: the mantissa is the value in units of \<open>2^(e-52)\<close>, where
  \<open>e\<close> is the binary exponent and at least \<open>-1022\<close>, rounded to the nearest integer.
\<close>

definition to_double :: "rat \<Rightarrow> jsnum" where
  "to_double r =
     (if r = 0 then Fin 0
      else
        (let a = \<bar>r\<bar>;
             e = max (floor_log2 a) (- 1022);
             ulp = pow2 (e - 52);
             v = of_int (round_half_even (a / ulp)) * ulp
         in if pow2 1024 \<le> v then (if 0 < r then PInf else NInf)
            else Fin (if 0 < r then v else - v)))"

definition isFinite :: "jsnum \<Rightarrow> bool" where
  "isFinite n = (case n of Fin _ \<Rightarrow> True | _ \<Rightarrow> False)"

fun js_mul :: "jsnum \<Rightarrow> jsnum \<Rightarrow> jsnum" where
  "js_mul (Fin a) (Fin b) = to_double (a * b)"
| "js_mul NaN _ = NaN"
| "js_mul _ NaN = NaN"
| "js_mul (Fin a) PInf = (if a = 0 then NaN else if 0 < a then PInf else NInf)"
| "js_mul (Fin a) NInf = (if a = 0 then NaN else if 0 < a then NInf else PInf)"
| "js_mul PInf (Fin b) = (if b = 0 then NaN else if 0 < b then PInf else NInf)"
| "js_mul NInf (Fin b) = (if b = 0 then NaN else if 0 < b then NInf else PInf)"
| "js_mul PInf PInf = PInf"
| "js_mul NInf NInf = PInf"
| "js_mul PInf NInf = NInf"
| "js_mul NInf PInf = NInf"

fun js_div :: "jsnum \<Rightarrow> jsnum \<Rightarrow> jsnum" where
  "js_div (Fin a) (Fin b) =
     (if b = 0 then (if a = 0 then NaN else if 0 < a then PInf else NInf)
      else to_double (a / b))"
| "js_div NaN _ = NaN"
| "js_div _ NaN = NaN"
| "js_div (Fin a) PInf = Fin 0"
| "js_div (Fin a) NInf = Fin 0"
| "js_div PInf (Fin b) = (if 0 \<le> b then PInf else NInf)"
| "js_div NInf (Fin b) = (if 0 \<le> b then NInf else PInf)"
| "js_div PInf PInf = NaN"
| "js_div NInf NInf = NaN"
| "js_div PInf NInf = NaN"
| "js_div NInf PInf = NaN"

subsection \<open>Characters and strings\<close>

definition is_digit :: "char \<Rightarrow> bool" where
  "is_digit c = (c \<in> set ''0123456789'')"

definition digit_val :: "char \<Rightarrow> nat" where
  "digit_val c = of_char c - 48"

definition digit_char :: "nat \<Rightarrow> char" where
  "digit_char d = ''0123456789'' ! (d mod 10)"

text \<open>The decimal digits of a natural number, as \<open>String(n)\<close> prints an integer.\<close>

function dec_digits :: "int \<Rightarrow> string" where
  "dec_digits n =
     (if n < 10 then [digit_char (nat n)]
      else dec_digits (n div 10) @ [digit_char (nat (n mod 10))])"
  by pat_completeness auto
termination
  by (relation "measure nat") auto

declare dec_digits.simps [simp del]

definition digits_val :: "string \<Rightarrow> int" where
  "digits_val cs = foldl (\<lambda>a c. 10 * a + int (digit_val c)) 0 cs"

definition toLowerCase_str :: "string \<Rightarrow> string" where
  "toLowerCase_str s =
     map (\<lambda>c. case map_of (zip ''ABCDEFGHIJKLMNOPQRSTUVWXYZ'' ''abcdefghijklmnopqrstuvwxyz'') c of
               Some l \<Rightarrow> l
             | None \<Rightarrow> c) s"


definition em_dash :: string where
  "em_dash = [CHR 0xE2, CHR 0x80, CHR 0x94]"

text \<open>
  The white space and line terminators that \<open>String.prototype.trim\<close> removes, each as
  its UTF-8 bytes: U+0009 to U+000D, U+0020, U+00A0, U+1680, U+2000 to U+200A, U+2028,
  U+2029, U+202F, U+205F, U+3000 and U+FEFF.
\<close>

definition ws_seqs :: "string list" where
  "ws_seqs =
     [[CHR 0x09], [CHR 0x0A], [CHR 0x0B], [CHR 0x0C], [CHR 0x0D], [CHR 0x20],
      [CHR 0xC2, CHR 0xA0],
      [CHR 0xE1, CHR 0x9A, CHR 0x80],
      [CHR 0xE2, CHR 0x80, CHR 0x80], [CHR 0xE2, CHR 0x80, CHR 0x81],
      [CHR 0xE2, CHR 0x80, CHR 0x82], [CHR 0xE2, CHR 0x80, CHR 0x83],
      [CHR 0xE2, CHR 0x80, CHR 0x84], [CHR 0xE2, CHR 0x80, CHR 0x85],
      [CHR 0xE2, CHR 0x80, CHR 0x86], [CHR 0xE2, CHR 0x80, CHR 0x87],
      [CHR 0xE2, CHR 0x80, CHR 0x88], [CHR 0xE2, CHR 0x80, CHR 0x89],
      [CHR 0xE2, CHR 0x80, CHR 0x8A],
      [CHR 0xE2, CHR 0x80, CHR 0xA8], [CHR 0xE2, CHR 0x80, CHR 0xA9],
      [CHR 0xE2, CHR 0x80, CHR 0xAF],
      [CHR 0xE2, CHR 0x81, CHR 0x9F],
      [CHR 0xE3, CHR 0x80, CHR 0x80],
      [CHR 0xEF, CHR 0xBB, CHR 0xBF]]"

definition match_len :: "string list \<Rightarrow> string \<Rightarrow> nat" where
  "match_len seqs s =
     (case find (\<lambda>w. w \<noteq> [] \<and> take (length w) s = w) seqs of
        None \<Rightarrow> 0
      | Some w \<Rightarrow> length w)"

fun strip_seqs :: "string list \<Rightarrow> string \<Rightarrow> string" where
  "strip_seqs seqs [] = []"
| "strip_seqs seqs (c # cs) =
     (if match_len seqs (c # cs) = 0 then c # cs
      else strip_seqs seqs (drop (match_len seqs (c # cs) - 1) cs))"

definition trim :: "string \<Rightarrow> string" where
  "trim s = rev (strip_seqs (map rev ws_seqs) (rev (strip_seqs ws_seqs s)))"

fun join_with :: "string \<Rightarrow> string list \<Rightarrow> string" where
  "join_with sep [] = []"
| "join_with sep [x] = x"
| "join_with sep (x # y # ys) = x @ sep @ join_with sep (y # ys)"

subsection \<open>Number to string\<close>

text \<open>
  \<open>Number::toString\<close> prints the shortest decimal that reads back as the same double:
  with \<open>k\<close> digits \<open>s\<close> and the decimal point at position \<open>n\<close> (the decimal is
  \<open>s \<times> 10^(n-k)\<close>), \<open>k\<close> is as small as possible, and of several such decimals the
  one nearest to the value is taken, the even one of two equally near. The value prints
  in positional notation for \<open>-6 < n \<le> 21\<close> and in exponent notation otherwise.

  \<open>shortest_search kd x n0\<close> tries \<open>kd\<close> digits, then one more, up to 17, which
  always suffice: the candidates with \<open>kd\<close> digits are the two multiples of
  \<open>10^(n0-kd)\<close> around \<open>x\<close>. It returns the digits as an integer and the power of ten
  that scales them.
\<close>

definition floor_log10 :: "rat \<Rightarrow> int" where
  "floor_log10 a =
     (if 1 \<le> a then int (length (dec_digits \<lfloor>a\<rfloor>)) - 1
      else - int (length (dec_digits (\<lceil>1 / a\<rceil> - 1))))"

function shortest_search :: "nat \<Rightarrow> rat \<Rightarrow> int \<Rightarrow> int \<times> int" where
  "shortest_search kd x n0 =
     (let scale = pow10 (n0 - int kd);
          lo = \<lfloor>x / scale\<rfloor>;
          c1 = of_int lo * scale;
          c2 = of_int (lo + 1) * scale;
          ok1 = (to_double c1 = Fin x);
          ok2 = (to_double c2 = Fin x)
      in if 17 \<le> kd \<or> ok1 \<or> ok2 then
           (if ok1 = ok2 then
              (if x - c1 < c2 - x \<or> (x - c1 = c2 - x \<and> even lo) then lo else lo + 1)
            else if ok1 then lo
            else lo + 1,
            n0 - int kd)
         else shortest_search (Suc kd) x n0)"
  by pat_completeness auto
termination
  by (relation "measure (\<lambda>(kd, x, n0). 17 - kd)") auto

declare shortest_search.simps [simp del]

definition shortest_decimal :: "rat \<Rightarrow> int \<times> int" where
  "shortest_decimal x = shortest_search 1 x (floor_log10 x + 1)"

function strip_zeros :: "int \<Rightarrow> int \<times> nat" where
  "strip_zeros m =
     (if m \<le> 0 \<or> m mod 10 \<noteq> 0 then (m, 0)
      else (case strip_zeros (m div 10) of (s, z) \<Rightarrow> (s, Suc z)))"
  by pat_completeness auto
termination
  by (relation "measure nat") auto

declare strip_zeros.simps [simp del]

definition exp_suffix :: "int \<Rightarrow> string" where
  "exp_suffix e = ''e'' @ (if 0 \<le> e then ''+'' else ''-'') @ dec_digits \<bar>e\<bar>"

definition pos_to_String :: "rat \<Rightarrow> string" where
  "pos_to_String r =
     (let (m, ex) = shortest_decimal r;
          (s, z) = strip_zeros m;
          ds = dec_digits s;
          k = int (length ds);
          n = k + int z + ex
      in if k \<le> n \<and> n \<le> 21 then ds @ replicate (nat (n - k)) CHR ''0''
         else if 0 < n \<and> n \<le> 21 then take (nat n) ds @ ''.'' @ drop (nat n) ds
         else if -6 < n \<and> n \<le> 0 then ''0.'' @ replicate (nat (- n)) CHR ''0'' @ ds
         else if k = 1 then ds @ exp_suffix (n - 1)
         else take 1 ds @ ''.'' @ drop 1 ds @ exp_suffix (n - 1))"

definition num_to_String :: "jsnum \<Rightarrow> string" where
  "num_to_String x =
     (case x of
        NaN \<Rightarrow> ''NaN''
      | PInf \<Rightarrow> ''Infinity''
      | NInf \<Rightarrow> ''-Infinity''
      | Fin r \<Rightarrow>
          (if r = 0 then ''0''
           else if r < 0 then ''-'' @ pos_to_String (- r)
           else pos_to_String r))"

subsection \<open>Truthiness, \<open>String(x)\<close> and \<open>x || d\<close>\<close>

fun truthy :: "jsval \<Rightarrow> bool" where
  "truthy JUndefined = False"
| "truthy JNull = False"
| "truthy (JBool b) = b"
| "truthy (JNum n) = (n \<noteq> NaN \<and> n \<noteq> Fin 0)"
| "truthy (JStr s) = (s \<noteq> [])"
| "truthy (JArr xs) = True"
| "truthy JObj = True"

definition js_or :: "jsval \<Rightarrow> jsval \<Rightarrow> jsval" where
  "js_or x d = (if truthy x then x else d)"

fun to_String :: "jsval \<Rightarrow> string" where
  "to_String JUndefined = ''undefined''"
| "to_String JNull = ''null''"
| "to_String (JBool b) = (if b then ''true'' else ''false'')"
| "to_String (JNum n) = num_to_String n"
| "to_String (JStr s) = s"
| "to_String (JArr xs) =
     join_with '',''
       (map (\<lambda>x. if x = JUndefined \<or> x = JNull then [] else to_String x) xs)"
| "to_String JObj = ''[object Object]''"

text \<open>
  \<open>x.toLowerCase()\<close> exists on strings only: on a number, a boolean, an array or an
  object the call throws a \<open>TypeError\<close> (and on \<open>undefined\<close> or \<open>null\<close> as well).
\<close>

definition toLowerCase :: "jsval \<Rightarrow> error + string" where
  "toLowerCase x = (case x of JStr s \<Rightarrow> Inr (toLowerCase_str s) | _ \<Rightarrow> Inl TypeError)"

section \<open>Helpers of the server\<close>

text \<open>
  \<open>Number(s)\<close> as \<open>toNum\<close> uses it: on a string of digits and dots only. Such a string is
  a number when it is empty (zero), digits, digits with a dot and optional digits after
  it, or a dot with digits after it; any other arrangement is \<open>NaN\<close>. The other
  literals of the language (signs, exponents, hexadecimal, \<open>Infinity\<close>, white space)
  need characters that \<open>toNum\<close> has removed; on a string that holds one the function
  answers \<open>NaN\<close> and is not used.
\<close>

definition Number_str :: "string \<Rightarrow> jsnum" where
  "Number_str s =
     (let ip = takeWhile is_digit s; rest = dropWhile is_digit s
      in if s = [] then Fin 0
         else if rest = [] then to_double (of_int (digits_val ip))
         else if hd rest = CHR ''.'' \<and> list_all is_digit (tl rest) \<and> (ip \<noteq> [] \<or> tl rest \<noteq> [])
           then to_double (of_int (digits_val (ip @ tl rest)) / 10 ^ length (tl rest))
         else NaN)"

text \<open>
  \<^verbatim>\<open>function toNum(x){
  const n = Number(String(x||'').replace(/[^0-9.]/g,''));
  return isFinite(n) ? n : 0;
}\<close>
\<close>

definition toNum :: "jsval \<Rightarrow> jsnum" where
  "toNum x =
     (let n = Number_str (filter (\<lambda>c. is_digit c \<or> c = CHR ''.'') (to_String (js_or x (JStr []))))
      in if isFinite n then n else Fin 0)"

text \<open>
  \<^verbatim>\<open>function money(n){
  const num = Number(n||0);
  return new Intl.NumberFormat('en-US',{style:'currency',currency:'USD'}).format(isFinite(num)?num:0);
}\<close>
  on a number \<open>n\<close>. The formatter takes the shortest decimal of the double
  (\<open>decimal_of\<close>, the decimal that \<open>String\<close> prints), rounds it to cents, half away
  from zero, and groups the integer part in threes.
\<close>

definition decimal_of :: "rat \<Rightarrow> rat" where
  "decimal_of r =
     (if r = 0 then 0
      else (let (m, ex) = shortest_decimal \<bar>r\<bar>
            in (if r < 0 then - 1 else 1) * of_int m * pow10 ex))"

fun commas_rev :: "string \<Rightarrow> string" where
  "commas_rev (a # b # c # d # ds) = a # b # c # CHR '','' # commas_rev (d # ds)"
| "commas_rev ds = ds"

definition group3 :: "string \<Rightarrow> string" where
  "group3 ds = rev (commas_rev (rev ds))"

definition money :: "jsnum \<Rightarrow> string" where
  "money n =
     (let r = (case n of Fin r \<Rightarrow> decimal_of r | _ \<Rightarrow> 0);
          cents = \<lfloor>\<bar>r\<bar> * 100 + 1 / 2\<rfloor>;
          body = ''$'' @ group3 (dec_digits (cents div 100)) @ ''.'' @
                 [digit_char (nat ((cents mod 100) div 10)), digit_char (nat (cents mod 10))]
      in if r < 0 then ''-'' @ body else body)"

text \<open>
  \<^verbatim>\<open>function genOrderId() {
  const L = 'ABCDEFGHJKLMNPQRSTUVWXYZ';
  const D = '0123456789';
  let a=''; for (let i=0;i<3;i++) a += L[Math.floor(Math.random()*L.length)];
  let b=''; for (let i=0;i<6;i++) b += D[Math.floor(Math.random()*D.length)];
  return `${a}-${b}`;
}\<close>
  The nine results of \<open>Math.random()\<close> are an input: \<open>rnd i\<close> is the \<open>i\<close>-th draw. The
  index is the floor of the exact product of the draw and the length. An index outside
  the alphabet reads \<open>undefined\<close>, which \<open>+=\<close> appends as that word.
\<close>

definition alphabet_L :: string where
  "alphabet_L = ''ABCDEFGHJKLMNPQRSTUVWXYZ''"

definition alphabet_D :: string where
  "alphabet_D = ''0123456789''"

definition pick :: "string \<Rightarrow> rat \<Rightarrow> string" where
  "pick alphabet r =
     (let i = \<lfloor>r * of_nat (length alphabet)\<rfloor>
      in if 0 \<le> i \<and> i < int (length alphabet) then [alphabet ! nat i] else ''undefined'')"

definition genOrderId :: "(nat \<Rightarrow> rat) \<Rightarrow> string" where
  "genOrderId rnd =
     concat (map (\<lambda>i. pick alphabet_L (rnd i)) [0..<3]) @ ''-'' @
     concat (map (\<lambda>i. pick alphabet_D (rnd i)) [3..<9])"

section \<open>Payment plan summary\<close>

text \<open>
  \<open>buildPaymentPlanSummary(o)\<close> reads five fields of its argument, which is the object
  built in \<open>POST /submit\<close> or a stored order. It returns \<open>{ text, calculatedDeposit,
  totalPrice: t }\<close>; \<open>null\<close> is \<open>None\<close>.
\<close>

record plan_fields =
  role :: jsval
  paymentPlan :: jsval
  depositType :: jsval
  depositValue :: jsval
  totalPrice :: jsval

record plan_info =
  plan_text :: string
  plan_calculatedDeposit :: "jsnum option"
  plan_totalPrice :: jsnum

definition buildPaymentPlanSummary :: "'a plan_fields_scheme \<Rightarrow> error + plan_info" where
  "buildPaymentPlanSummary o' =
     (case toLowerCase (js_or (paymentPlan o') (JStr ''full'')) of
        Inl e \<Rightarrow> Inl e
      | Inr plan \<Rightarrow>
     (let t = toNum (totalPrice o') in
      case toLowerCase (js_or (depositType o') (JStr ''percent'')) of
        Inl e \<Rightarrow> Inl e
      | Inr type \<Rightarrow>
     (let v = toNum (depositValue o') in
      case toLowerCase (js_or (role o') (JStr [])) of
        Inl e \<Rightarrow> Inl e
      | Inr r \<Rightarrow>
          if r = ''buyer'' then
            if plan = ''full'' then
              Inr \<lparr>plan_text = ''Buyer selected full payment'',
                   plan_calculatedDeposit = None, plan_totalPrice = t\<rparr>
            else if type = ''percent'' then
              (let calculatedDeposit =
                     (if truthy (JNum t) then Some (js_mul t (js_div v (Fin 100))) else None)
               in Inr \<lparr>plan_text =
                         (if truthy (JNum t)
                          then ''Buyer selected down payment '' @ em_dash @ '' '' @
                               num_to_String v @ ''% of '' @ money t @ '' ('' @
                               money (case calculatedDeposit of Some d \<Rightarrow> d | None \<Rightarrow> Fin 0) @ '')''
                          else ''Buyer selected down payment '' @ em_dash @ '' '' @
                               num_to_String v @ ''% of total (enter total to compute amount)''),
                       plan_calculatedDeposit = calculatedDeposit, plan_totalPrice = t\<rparr>)
            else
              Inr \<lparr>plan_text = ''Buyer selected down payment '' @ em_dash @ '' '' @ money v,
                   plan_calculatedDeposit = (if truthy (JNum v) then Some v else None),
                   plan_totalPrice = t\<rparr>
          else
            Inr \<lparr>plan_text = ''Seller initiated transaction'',
                 plan_calculatedDeposit = None, plan_totalPrice = t\<rparr>)))"

section \<open>Orders, the store and the three handlers\<close>

text \<open>
  The status of an order is one of the three texts the handlers write. The store is the
  \<open>orders\<close> array of the data file, newest first; the handlers read it whole, change it
  in memory and write it whole, and failures of the file system are not represented.
  What a request cannot determine is an input of the handler: the clock, the draws of
  \<open>Math.random()\<close>, the result of \<open>uuidv4()\<close>, the configured \<open>BASE_URL\<close> and whether the
  mail transport delivers.
\<close>

datatype status = AwaitingPayment | PaymentConfirmed | FundsReleased


record order = plan_fields +
  orderId :: string
  releaseToken :: string
  createdAt :: string
  source :: jsval
  firstName :: jsval
  lastName :: jsval
  email :: jsval
  phone :: jsval
  itemDetails :: jsval
  deliveryNotes :: jsval
  buyerNotes :: string
  calculatedDeposit :: "jsnum option"
  status :: status
  escrowBalance :: jsnum
  paidAt :: "string option"
  releasedAt :: "string option"

record env =
  BASE_URL :: string
  now :: string
  random :: "nat \<Rightarrow> rat"
  uuidv4 :: string
  mail_ok :: bool

datatype response =
    JsonError nat string
  | SendText nat string
  | SubmitOk string string
  | ConfirmOk order
  | ReleasedPage order

text \<open>
  \<open>JsonError c m\<close> is \<open>res.status(c).json({ ok:false, error:m })\<close>, \<open>SendText c m\<close> is
  \<open>res.status(c).send(m)\<close>, \<open>SubmitOk orderId invoiceUrl\<close> and \<open>ConfirmOk order\<close> are the
  two JSON answers with \<open>ok:true\<close>, and \<open>ReleasedPage order\<close> is the confirmation page.
\<close>

fun findIndex :: "('a \<Rightarrow> bool) \<Rightarrow> 'a list \<Rightarrow> nat option" where
  "findIndex P [] = None"
| "findIndex P (x # xs) =
     (if P x then Some 0 else (case findIndex P xs of None \<Rightarrow> None | Some i \<Rightarrow> Some (Suc i)))"

definition required :: "string list" where
  "required = [''role'', ''source'', ''firstName'', ''lastName'', ''email'', ''phone'']"

text \<open>The test of the validation loop: \<open>!b[k] || String(b[k]).trim()===''\<close>.\<close>

definition field_missing :: "jsval \<Rightarrow> bool" where
  "field_missing v = (\<not> truthy v \<or> trim (to_String v) = [])"

definition submit :: "env \<Rightarrow> (string \<Rightarrow> jsval) \<Rightarrow> order list \<Rightarrow> response \<times> order list" where
  "submit e b store =
     (case find (\<lambda>k. field_missing (b k)) required of
        Some k \<Rightarrow> (JsonError 400 (''Missing field: '' @ k), store)
      | None \<Rightarrow>
     (case toLowerCase (js_or (b ''paymentPlan'') (JStr ''full'')) of
        Inl _ \<Rightarrow> (JsonError 500 ''Server error'', store)
      | Inr paymentPlan' \<Rightarrow>
     (case toLowerCase (js_or (b ''depositType'') (JStr ''percent'')) of
        Inl _ \<Rightarrow> (JsonError 500 ''Server error'', store)
      | Inr depositType' \<Rightarrow>
     (let depositValue' = toNum (b ''depositValue'');
          totalPrice' = toNum (b ''totalPrice'');
          buyerNotes' = trim (to_String (js_or (b ''buyerNotes'') (JStr [])))
      in case buildPaymentPlanSummary
                \<lparr>role = b ''role'', paymentPlan = JStr paymentPlan',
                 depositType = JStr depositType', depositValue = JNum depositValue',
                 totalPrice = JNum totalPrice'\<rparr> of
        Inl _ \<Rightarrow> (JsonError 500 ''Server error'', store)
      | Inr planInfo \<Rightarrow>
     (let orderId' = genOrderId (random e);
          releaseToken' = uuidv4 e;
          order' =
            \<lparr>role = b ''role'', paymentPlan = JStr paymentPlan',
             depositType = JStr depositType', depositValue = JNum depositValue',
             totalPrice = JNum totalPrice',
             orderId = orderId', releaseToken = releaseToken', createdAt = now e,
             source = b ''source'', firstName = b ''firstName'', lastName = b ''lastName'',
             email = b ''email'', phone = b ''phone'',
             itemDetails = js_or (b ''itemDetails'') (JStr []),
             deliveryNotes = js_or (b ''deliveryNotes'') (JStr []),
             buyerNotes = buyerNotes',
             calculatedDeposit = plan_calculatedDeposit planInfo,
             status = AwaitingPayment, escrowBalance = Fin 0,
             paidAt = None, releasedAt = None\<rparr>;
          store' = order' # store
      in if mail_ok e
         then (SubmitOk orderId'
                 (BASE_URL e @ ''/invoices/'' @ orderId' @ ''?t='' @ releaseToken'), store')
         else (JsonError 500 ''Server error'', store'))))))"

definition confirm :: "env \<Rightarrow> string \<Rightarrow> order list \<Rightarrow> response \<times> order list" where
  "confirm e oid store =
     (case findIndex (\<lambda>x. orderId x = oid) store of
        None \<Rightarrow> (JsonError 404 ''Order not found'', store)
      | Some idx \<Rightarrow>
          (let order' = (store ! idx)
                 \<lparr>status := PaymentConfirmed,
                  escrowBalance :=
                    (if truthy (JNum (escrowBalance (store ! idx)))
                     then escrowBalance (store ! idx) else Fin 0),
                  paidAt := Some (now e)\<rparr>;
               store' = store[idx := order']
           in if mail_ok e then (ConfirmOk order', store')
              else (JsonError 500 ''Server error'', store')))"


section \<open>The down payment of the invoice server\<close>

text \<open>
  The other server of the repository (\<open>server.js\<close>, which writes an invoice file for each
  submission) computes the down payment of the same form fields in its own
  \<open>POST /submit\<close>:
  \<^verbatim>\<open>let downPayment = 0;
if (paymentPlan === 'milestone') {
  if (downType === 'percent') {
    const pct = Math.min(100, Math.max(0, downValue));
    downPayment = +(amount * (pct / 100)).toFixed(2);
  } else {
    downPayment = Math.max(0, Math.min(amount, downValue));
  }
}
const balanceDue = +(amount - downPayment).toFixed(2);\<close>
  \<open>downPaymentCalc\<close> is this fragment, a function of the four constants it reads;
  \<open>plus_toFixed2 x\<close> is \<open>+(x).toFixed(2)\<close>, the value rounded to cents and read back (a value of
  magnitude \<open>10^21\<close> or more, an infinity or \<open>NaN\<close> is printed and read back as it is).
\<close>

fun js_max :: "jsnum \<Rightarrow> jsnum \<Rightarrow> jsnum" where
  "js_max NaN _ = NaN"
| "js_max _ NaN = NaN"
| "js_max PInf _ = PInf"
| "js_max _ PInf = PInf"
| "js_max NInf b = b"
| "js_max a NInf = a"
| "js_max (Fin a) (Fin b) = Fin (max a b)"

fun js_min :: "jsnum \<Rightarrow> jsnum \<Rightarrow> jsnum" where
  "js_min NaN _ = NaN"
| "js_min _ NaN = NaN"
| "js_min NInf _ = NInf"
| "js_min _ NInf = NInf"
| "js_min PInf b = b"
| "js_min a PInf = a"
| "js_min (Fin a) (Fin b) = Fin (min a b)"

fun js_sub :: "jsnum \<Rightarrow> jsnum \<Rightarrow> jsnum" where
  "js_sub (Fin a) (Fin b) = to_double (a - b)"
| "js_sub NaN _ = NaN"
| "js_sub _ NaN = NaN"
| "js_sub PInf PInf = NaN"
| "js_sub NInf NInf = NaN"
| "js_sub PInf _ = PInf"
| "js_sub NInf _ = NInf"
| "js_sub (Fin a) PInf = NInf"
| "js_sub (Fin a) NInf = PInf"

definition plus_toFixed2 :: "jsnum \<Rightarrow> jsnum" where
  "plus_toFixed2 x =
     (case x of
        Fin r \<Rightarrow>
          if 10 ^ 21 \<le> \<bar>r\<bar> then Fin r
          else to_double ((if r < 0 then - 1 else 1) * of_int \<lfloor>\<bar>r\<bar> * 100 + 1 / 2\<rfloor> / 100)
      | _ \<Rightarrow> x)"

definition downPaymentCalc :: "string \<Rightarrow> string \<Rightarrow> jsnum \<Rightarrow> jsnum \<Rightarrow> jsnum \<times> jsnum" where
  "downPaymentCalc paymentPlan' downType downValue amount =
     (let downPayment =
            (if paymentPlan' = ''milestone'' then
               (if downType = ''percent'' then
                  (let pct = js_min (Fin 100) (js_max (Fin 0) downValue)
                   in plus_toFixed2 (js_mul amount (js_div pct (Fin 100))))
                else js_max (Fin 0) (js_min amount downValue))
             else Fin 0);
          balanceDue = plus_toFixed2 (js_sub amount downPayment)
      in (downPayment, balanceDue))"

section \<open>Concrete requests\<close>

text \<open>The inputs at which the theorems below are instantiated.\<close>

definition demo_env :: env where
  "demo_env =
     \<lparr>BASE_URL = ''http://localhost:3000'', now = ''2024-01-01T00:00:00.000Z'',
      random = (\<lambda>i. 0), uuidv4 = ''tok-1'', mail_ok = True\<rparr>"

definition demo_order :: order where
  "demo_order =
     \<lparr>role = JStr ''buyer'', paymentPlan = JStr ''full'', depositType = JStr ''percent'',
      depositValue = JNum (Fin 0), totalPrice = JNum (Fin 1000),
      orderId = ''AAA-000000'', releaseToken = ''tok-1'',
      createdAt = ''2024-01-01T00:00:00.000Z'',
      source = JStr ''web'', firstName = JStr ''Ann'', lastName = JStr ''Lee'',
      email = JStr ''ann@example.com'', phone = JStr ''555-0100'',
      itemDetails = JStr [], deliveryNotes = JStr [], buyerNotes = [],
      calculatedDeposit = None, status = AwaitingPayment, escrowBalance = Fin 0,
      paidAt = None, releasedAt = None\<rparr>"

definition released_order :: order where
  "released_order =
     demo_order
       \<lparr>status := FundsReleased, paidAt := Some ''2024-01-02T00:00:00.000Z'',
        releasedAt := Some ''2024-01-03T00:00:00.000Z''\<rparr>"

text \<open>
  A request body with the given fields: \<open>b[k]\<close> is the value of the field \<open>k\<close>, or
  \<open>undefined\<close> when the body has no such field.
\<close>

definition form :: "(string \<times> jsval) list \<Rightarrow> string \<Rightarrow> jsval" where
  "form kvs k = (case map_of kvs k of Some v \<Rightarrow> v | None \<Rightarrow> JUndefined)"

definition demo_fields :: "(string \<times> jsval) list" where
  "demo_fields =
     [(''role'', JStr ''buyer''), (''source'', JStr ''web''), (''firstName'', JStr ''Ann''),
      (''lastName'', JStr ''Lee''), (''email'', JStr ''ann@example.com''),
      (''phone'', JStr ''555-0100'')]"

definition no_email_fields :: "(string \<times> jsval) list" where
  "no_email_fields =
     [(''role'', JStr ''buyer''), (''source'', JStr ''web''), (''firstName'', JStr ''Ann''),
      (''lastName'', JStr ''Lee''), (''email'', JStr ''  ''), (''phone'', JStr ''555-0100'')]"

definition percent_150_fields :: "(string \<times> jsval) list" where
  "percent_150_fields =
     demo_fields @
     [(''paymentPlan'', JStr ''down''), (''depositType'', JStr ''percent''),
      (''depositValue'', JStr ''150''), (''totalPrice'', JStr ''1000'')]"

definition amount_1500_fields :: "(string \<times> jsval) list" where
  "amount_1500_fields =
     demo_fields @
     [(''paymentPlan'', JStr ''down''), (''depositType'', JStr ''amount''),
      (''depositValue'', JStr ''1500''), (''totalPrice'', JStr ''1000'')]"

definition huge_total_fields :: "(string \<times> jsval) list" where
  "huge_total_fields =
     demo_fields @
     [(''paymentPlan'', JStr ''down''), (''depositType'', JStr ''percent''),
      (''depositValue'', JStr ''50''), (''totalPrice'', JStr ''1000000000000000000000'')]"


section \<open>Evaluation rules\<close>

text \<open>
  The recursive digit functions are unfolded by rules with their loop condition as a
  premise, so that rewriting stops where the condition is not decided.
\<close>

lemma dec_digits_small: "n < 10 \<Longrightarrow> dec_digits n = [digit_char (nat n)]"
  by (simp add: dec_digits.simps)

lemma dec_digits_big:
  "\<not> n < 10 \<Longrightarrow> dec_digits n = dec_digits (n div 10) @ [digit_char (nat (n mod 10))]"
  by (subst dec_digits.simps) simp

lemma bit_length_stop: "n \<le> 0 \<Longrightarrow> bit_length n = 0"
  by (simp add: bit_length.simps)

lemma bit_length_step: "\<not> n \<le> 0 \<Longrightarrow> bit_length n = 1 + bit_length (n div 2)"
  by (subst bit_length.simps) simp

lemma strip_zeros_stop: "m \<le> 0 \<or> m mod 10 \<noteq> 0 \<Longrightarrow> strip_zeros m = (m, 0)"
  by (subst strip_zeros.simps) simp

lemma strip_zeros_step:
  "\<not> (m \<le> 0 \<or> m mod 10 \<noteq> 0) \<Longrightarrow>
   strip_zeros m = (case strip_zeros (m div 10) of (s, z) \<Rightarrow> (s, Suc z))"
  by (subst strip_zeros.simps) simp

lemma floor_numeral_div: "\<lfloor>(numeral a :: rat) / numeral b\<rfloor> = numeral a div numeral b"
  using floor_divide_of_int_eq[of "numeral a" "numeral b", where ?'a = rat] by simp

lemma ceiling_numeral_div:
  "\<lceil>(numeral a :: rat) / numeral b\<rceil> = - ((- numeral a) div numeral b)"
  using floor_divide_of_int_eq[of "- numeral a" "numeral b", where ?'a = rat]
  by (simp add: ceiling_def)

lemma replicate_numeral: "replicate (numeral k) x = x # replicate (pred_numeral k) x"
  by (simp add: numeral_eq_Suc)

lemmas digit_eval = replicate_numeral dec_digits_small dec_digits_big strip_zeros_stop
  strip_zeros_step digit_char_def floor_numeral_div ceiling_numeral_div

lemmas num_eval = to_double_def floor_log2_def round_half_even_def pow2_def Let_def
  bit_length_stop bit_length_step floor_numeral_div ceiling_numeral_div

lemmas parse_eval = toNum_def js_or_def is_digit_def Number_str_def digits_val_def
  digit_val_def isFinite_def

lemmas print_eval = num_to_String_def pos_to_String_def shortest_decimal_def
  shortest_search.simps floor_log10_def pow10_def exp_suffix_def digit_eval num_eval

lemmas money_eval = money_def decimal_of_def group3_def shortest_decimal_def
  shortest_search.simps floor_log10_def pow10_def digit_eval num_eval

lemmas lower_eval = toLowerCase_def toLowerCase_str_def js_or_def

lemmas trim_eval = trim_def ws_seqs_def match_len_def

section \<open>The numeric parser\<close>

lemma pow2_pos: "0 < pow2 i"
  by (simp add: pow2_def)

lemma round_half_even_nonneg: "0 \<le> q \<Longrightarrow> 0 \<le> round_half_even q"
  by (simp add: round_half_even_def Let_def)

lemma to_double_nonneg:
  assumes "0 \<le> r"
  shows "to_double r = PInf \<or> (\<exists>q\<ge>0. to_double r = Fin q)"
proof (cases "r = 0")
  case True
  then show ?thesis by (simp add: to_double_def)
next
  case False
  with assms have pos: "0 < r" by simp
  let ?ulp = "pow2 (max (floor_log2 \<bar>r\<bar>) (- 1022) - 52)"
  let ?v = "of_int (round_half_even (\<bar>r\<bar> / ?ulp)) * ?ulp"
  have "0 \<le> \<bar>r\<bar> / ?ulp"
    using pow2_pos[of "max (floor_log2 \<bar>r\<bar>) (- 1022) - 52"] by simp
  then have "0 \<le> round_half_even (\<bar>r\<bar> / ?ulp)"
    by (rule round_half_even_nonneg)
  then have v: "0 \<le> ?v"
    using pow2_pos[of "max (floor_log2 \<bar>r\<bar>) (- 1022) - 52"] by simp
  have "to_double r = (if pow2 1024 \<le> ?v then PInf else Fin ?v)"
    using pos by (simp add: to_double_def Let_def)
  with v show ?thesis by auto
qed

lemma foldl_digits_nonneg:
  "0 \<le> a \<Longrightarrow> 0 \<le> foldl (\<lambda>a c. 10 * a + int (digit_val c)) a cs"
  by (induction cs arbitrary: a) simp_all

lemma digits_val_nonneg: "0 \<le> digits_val cs"
  by (simp add: digits_val_def foldl_digits_nonneg)

lemma Number_str_cases:
  "Number_str s = NaN \<or> Number_str s = PInf \<or> (\<exists>q\<ge>0. Number_str s = Fin q)"
proof -
  have a: "\<And>cs. to_double (of_int (digits_val cs)) = PInf
             \<or> (\<exists>q\<ge>0. to_double (of_int (digits_val cs)) = Fin q)"
    by (rule to_double_nonneg) (simp add: digits_val_nonneg)
  have b: "\<And>cs n. to_double (of_int (digits_val cs) / 10 ^ n) = PInf
             \<or> (\<exists>q\<ge>0. to_double (of_int (digits_val cs) / 10 ^ n) = Fin q)"
    by (rule to_double_nonneg) (simp add: digits_val_nonneg)
  show ?thesis
    unfolding Number_str_def Let_def
    using a b by (auto simp del: of_int_0_le_iff)
qed

lemma toNum_nonneg: "\<exists>r\<ge>0. toNum x = Fin r"
proof -
  let ?s = "filter (\<lambda>c. is_digit c \<or> c = CHR ''.'') (to_String (js_or x (JStr [])))"
  from Number_str_cases[of ?s] show ?thesis
    by (auto simp: toNum_def Let_def isFinite_def)
qed

lemma toNum_not_NaN: "toNum x \<noteq> NaN"
  using toNum_nonneg[of x] by auto

lemma toNum_minus_50: "toNum (JStr ''-50'') = Fin 50"
  by (simp add: parse_eval num_eval)

lemma toNum_1_2_3: "toNum (JStr ''1.2.3'') = Fin 0"
  by (simp add: parse_eval num_eval)

text \<open>
  Claim C10: on a form string the numeric parser removes every character but digits
  and dots before converting; the result is never negative (the sign of \<open>-50\<close> is
  lost, the result is 50), and a string that is not a finite number once stripped
  (\<open>1.2.3\<close>) gives 0.
\<close>

theorem toNum_string:
  "toNum (JStr s) =
     (case Number_str (filter (\<lambda>c. is_digit c \<or> c = CHR ''.'') s) of
        Fin r \<Rightarrow> Fin r | _ \<Rightarrow> Fin 0)
   \<and> (\<exists>r\<ge>0. toNum (JStr s) = Fin r)
   \<and> toNum (JStr ''-50'') = Fin 50
   \<and> toNum (JStr ''1.2.3'') = Fin 0"
proof -
  have "to_String (js_or (JStr s) (JStr [])) = s"
    by (simp add: js_or_def)
  then have "toNum (JStr s) =
     (case Number_str (filter (\<lambda>c. is_digit c \<or> c = CHR ''.'') s) of
        Fin r \<Rightarrow> Fin r | _ \<Rightarrow> Fin 0)"
    by (simp add: toNum_def Let_def isFinite_def split: jsnum.splits)
  with toNum_nonneg[of "JStr s"] toNum_minus_50 toNum_1_2_3
  show ?thesis by simp
qed

theorem toNum_string_witness: "toNum (JStr ''12.5kg'') = Fin (25 / 2)"
  using toNum_string[of "''12.5kg''"]
  by (simp add: is_digit_def Number_str_def digits_val_def digit_val_def num_eval)

section \<open>The payment plan calculator\<close>

lemma num_to_String_20: "num_to_String (Fin 20) = ''20''"
  by (simp add: print_eval)

lemma toNum_20: "toNum (JNum (Fin 20)) = Fin 20"
  by (simp add: parse_eval num_eval num_to_String_20)

lemma toNum_1000: "toNum (JNum (Fin 1000)) = Fin 1000"
  by (simp add: parse_eval num_eval print_eval)

lemma toNum_undefined: "toNum JUndefined = Fin 0"
  by (simp add: parse_eval num_eval)

text \<open>
  Claim C9: the calculator returns no deposit (\<open>null\<close>) for a buyer with the plan
  \<open>full\<close>, with the summary that full payment was selected, and for a seller whatever
  the plan, with one fixed summary.

  \<open>plan\<close>, \<open>ty\<close> and \<open>r\<close> are the plan, the deposit type and the role as the function
  reads them: the field or its default, in lower case. The function reads all three
  before it looks at the role, and each is a string or absent in a request it answers.
\<close>

theorem summary_no_deposit:
  assumes "toLowerCase (js_or (paymentPlan o') (JStr ''full'')) = Inr plan"
    and "toLowerCase (js_or (depositType o') (JStr ''percent'')) = Inr ty"
    and "toLowerCase (js_or (role o') (JStr [])) = Inr r"
    and "r = ''buyer'' \<and> plan = ''full'' \<or> r = ''seller''"
  shows "buildPaymentPlanSummary o' =
           Inr \<lparr>plan_text = (if r = ''seller'' then ''Seller initiated transaction''
                             else ''Buyer selected full payment''),
                plan_calculatedDeposit = None,
                plan_totalPrice = toNum (totalPrice o')\<rparr>"
  using assms by (auto simp: buildPaymentPlanSummary_def)

theorem summary_no_deposit_witness:
  "buildPaymentPlanSummary
     \<lparr>role = JStr ''Buyer'', paymentPlan = JUndefined, depositType = JStr ''amount'',
      depositValue = JNum (Fin 20), totalPrice = JNum (Fin 1000)\<rparr>
     = Inr \<lparr>plan_text = ''Buyer selected full payment'', plan_calculatedDeposit = None,
            plan_totalPrice = Fin 1000\<rparr>
   \<and> buildPaymentPlanSummary
     \<lparr>role = JStr ''seller'', paymentPlan = JStr ''down'', depositType = JStr ''percent'',
      depositValue = JNum (Fin 20), totalPrice = JNum (Fin 1000)\<rparr>
     = Inr \<lparr>plan_text = ''Seller initiated transaction'', plan_calculatedDeposit = None,
            plan_totalPrice = Fin 1000\<rparr>"
proof -
  let ?b = "\<lparr>role = JStr ''Buyer'', paymentPlan = JUndefined, depositType = JStr ''amount'',
             depositValue = JNum (Fin 20), totalPrice = JNum (Fin 1000)\<rparr>"
  let ?s = "\<lparr>role = JStr ''seller'', paymentPlan = JStr ''down'', depositType = JStr ''percent'',
             depositValue = JNum (Fin 20), totalPrice = JNum (Fin 1000)\<rparr>"
  have b1: "toLowerCase (js_or (paymentPlan ?b) (JStr ''full'')) = Inr ''full''"
    and b2: "toLowerCase (js_or (depositType ?b) (JStr ''percent'')) = Inr ''amount''"
    and b3: "toLowerCase (js_or (role ?b) (JStr [])) = Inr ''buyer''"
    and b4: "''buyer'' = ''buyer'' \<and> ''full'' = ''full'' \<or> ''buyer'' = ''seller''"
    by (simp_all add: lower_eval)
  have s1: "toLowerCase (js_or (paymentPlan ?s) (JStr ''full'')) = Inr ''down''"
    and s2: "toLowerCase (js_or (depositType ?s) (JStr ''percent'')) = Inr ''percent''"
    and s3: "toLowerCase (js_or (role ?s) (JStr [])) = Inr ''seller''"
    and s4: "''seller'' = ''buyer'' \<and> ''down'' = ''full'' \<or> ''seller'' = ''seller''"
    by (simp_all add: lower_eval)
  from summary_no_deposit[OF b1 b2 b3 b4] summary_no_deposit[OF s1 s2 s3 s4]
  show ?thesis
    by (simp add: toNum_1000)
qed

text \<open>
  The percentage branch for a buyer with a plan other than \<open>full\<close>. The total \<open>t\<close>
  and the value \<open>v\<close> are the two fields as \<open>toNum\<close> reads them; the deposit is the
  double product of \<open>t\<close> and the double quotient \<open>v / 100\<close>.
\<close>

lemma calculator_percent:
  assumes "toLowerCase (js_or (paymentPlan o') (JStr ''full'')) = Inr plan"
    and "toLowerCase (js_or (depositType o') (JStr ''percent'')) = Inr ''percent''"
    and "toLowerCase (js_or (role o') (JStr [])) = Inr ''buyer''"
    and "plan \<noteq> ''full''"
  shows "buildPaymentPlanSummary o' =
           (let t = toNum (totalPrice o'); v = toNum (depositValue o') in
            if t = Fin 0
            then Inr \<lparr>plan_text = ''Buyer selected down payment '' @ em_dash @ '' '' @
                                  num_to_String v @ ''% of total (enter total to compute amount)'',
                      plan_calculatedDeposit = None, plan_totalPrice = t\<rparr>
            else Inr \<lparr>plan_text = ''Buyer selected down payment '' @ em_dash @ '' '' @
                                  num_to_String v @ ''% of '' @ money t @ '' ('' @
                                  money (js_mul t (js_div v (Fin 100))) @ '')'',
                      plan_calculatedDeposit = Some (js_mul t (js_div v (Fin 100))),
                      plan_totalPrice = t\<rparr>)"
  using assms by (simp add: buildPaymentPlanSummary_def Let_def toNum_not_NaN)

text \<open>
  Three evaluations: 20 percent of 1000 is 200; 7 percent of 10 is the double
  0.7000000000000001; 7.5 percent of 3 is the double 0.22499999999999998, which the
  summary shows as \<open>$0.22\<close>; and without a total there is no deposit.
\<close>

lemma double_products:
  "js_mul (Fin 1000) (js_div (Fin 20) (Fin 100)) = Fin 200"
  "js_mul (Fin 10) (js_div (Fin 7) (Fin 100)) = Fin (6305039478318695 / 9007199254740992)"
  "js_mul (Fin 3) (js_div (Fin (15 / 2)) (Fin 100)) = Fin (2026619832316723 / 9007199254740992)"
  by (simp_all add: num_eval)

lemma num_to_String_doubles:
  "num_to_String (Fin (15 / 2)) = ''7.5''"
  "num_to_String (Fin 3) = ''3''"
  "num_to_String (Fin (6305039478318695 / 9007199254740992)) = ''0.7000000000000001''"
  by (simp_all add: print_eval)

lemma money_doubles:
  "money (Fin 3) = ''$3.00''"
  "money (Fin (2026619832316723 / 9007199254740992)) = ''$0.22''"
  by (simp_all add: money_eval)

lemma toNum_7_5: "toNum (JNum (Fin (15 / 2))) = Fin (15 / 2)" "toNum (JNum (Fin 3)) = Fin 3"
  by (simp_all add: parse_eval num_eval num_to_String_doubles)

lemma calculator_percent_examples:
  "buildPaymentPlanSummary
     \<lparr>role = JStr ''buyer'', paymentPlan = JStr ''down'', depositType = JStr ''percent'',
      depositValue = JNum (Fin (15 / 2)), totalPrice = JNum (Fin 3)\<rparr>
     = Inr \<lparr>plan_text = ''Buyer selected down payment '' @ em_dash @
                          '' 7.5% of $3.00 ($0.22)'',
            plan_calculatedDeposit = Some (Fin (2026619832316723 / 9007199254740992)),
            plan_totalPrice = Fin 3\<rparr>"
  "plan_calculatedDeposit
     (projr (buildPaymentPlanSummary
        \<lparr>role = JStr ''buyer'', paymentPlan = JStr ''down'', depositType = JStr ''percent'',
         depositValue = JNum (Fin 20), totalPrice = JNum (Fin 1000)\<rparr>)) = Some (Fin 200)"
  "buildPaymentPlanSummary
     \<lparr>role = JStr ''buyer'', paymentPlan = JStr ''down'', depositType = JStr ''percent'',
      depositValue = JNum (Fin 20), totalPrice = JUndefined\<rparr>
     = Inr \<lparr>plan_text = ''Buyer selected down payment '' @ em_dash @
                          '' 20% of total (enter total to compute amount)'',
            plan_calculatedDeposit = None, plan_totalPrice = Fin 0\<rparr>"
proof -
  let ?a = "\<lparr>role = JStr ''buyer'', paymentPlan = JStr ''down'', depositType = JStr ''percent'',
      depositValue = JNum (Fin (15 / 2)), totalPrice = JNum (Fin 3)\<rparr>"
  let ?o = "\<lparr>role = JStr ''buyer'', paymentPlan = JStr ''down'', depositType = JStr ''percent'',
         depositValue = JNum (Fin 20), totalPrice = JNum (Fin 1000)\<rparr>"
  let ?u = "\<lparr>role = JStr ''buyer'', paymentPlan = JStr ''down'', depositType = JStr ''percent'',
         depositValue = JNum (Fin 20), totalPrice = JUndefined\<rparr>"
  have h4: "''down'' \<noteq> ''full''" by simp
  have a: "toLowerCase (js_or (paymentPlan ?a) (JStr ''full'')) = Inr ''down''"
    "toLowerCase (js_or (depositType ?a) (JStr ''percent'')) = Inr ''percent''"
    "toLowerCase (js_or (role ?a) (JStr [])) = Inr ''buyer''"
    by (simp_all add: lower_eval)
  have h: "toLowerCase (js_or (paymentPlan ?o) (JStr ''full'')) = Inr ''down''"
    "toLowerCase (js_or (depositType ?o) (JStr ''percent'')) = Inr ''percent''"
    "toLowerCase (js_or (role ?o) (JStr [])) = Inr ''buyer''"
    by (simp_all add: lower_eval)
  have u: "toLowerCase (js_or (paymentPlan ?u) (JStr ''full'')) = Inr ''down''"
    "toLowerCase (js_or (depositType ?u) (JStr ''percent'')) = Inr ''percent''"
    "toLowerCase (js_or (role ?u) (JStr [])) = Inr ''buyer''"
    by (simp_all add: lower_eval)
  from calculator_percent[OF a h4]
  show "buildPaymentPlanSummary ?a
     = Inr \<lparr>plan_text = ''Buyer selected down payment '' @ em_dash @
                          '' 7.5% of $3.00 ($0.22)'',
            plan_calculatedDeposit = Some (Fin (2026619832316723 / 9007199254740992)),
            plan_totalPrice = Fin 3\<rparr>"
    by (simp add: toNum_7_5 double_products num_to_String_doubles money_doubles Let_def
          del: js_mul.simps js_div.simps)
  from calculator_percent[OF h h4]
  show "plan_calculatedDeposit (projr (buildPaymentPlanSummary ?o)) = Some (Fin 200)"
    by (simp add: toNum_20 toNum_1000 double_products Let_def del: js_mul.simps js_div.simps)
  from calculator_percent[OF u h4]
  show "buildPaymentPlanSummary ?u
     = Inr \<lparr>plan_text = ''Buyer selected down payment '' @ em_dash @
                          '' 20% of total (enter total to compute amount)'',
            plan_calculatedDeposit = None, plan_totalPrice = Fin 0\<rparr>"
    by (simp add: toNum_20 toNum_undefined num_to_String_20)
qed

section \<open>Looking an order up\<close>

lemma findIndex_Some:
  "findIndex P xs = Some i \<Longrightarrow> i < length xs \<and> P (xs ! i) \<and> (\<forall>j<i. \<not> P (xs ! j))"
proof (induction xs arbitrary: i)
  case Nil
  then show ?case by simp
next
  case (Cons x xs)
  show ?case
  proof (cases "P x")
    case True
    with Cons.prems show ?thesis by simp
  next
    case False
    with Cons.prems obtain k where k: "findIndex P xs = Some k" "i = Suc k"
      by (auto split: option.splits)
    from Cons.IH[OF k(1)] False k(2) show ?thesis
      by (auto simp: less_Suc_eq_0_disj)
  qed
qed



section \<open>The state machine\<close>

text \<open>
  Claim C1: the status of an order only moves forward along
  AwaitingPayment, PaymentConfirmed, FundsReleased; in particular a confirmation of a
  released order does not set it back to PaymentConfirmed.

  The handler of \<open>POST /payments/:orderId/confirm\<close> writes the status without reading
  it, where the handler of the release reads the status first. On a store whose only
  order is released, the confirmation leaves that order in PaymentConfirmed: the
  status has moved backwards, and the order can be released a second time.
\<close>

theorem confirm_reverts_released:
  "status released_order = FundsReleased
   \<and> confirm demo_env ''AAA-000000'' [released_order]
       = (ConfirmOk (released_order\<lparr>status := PaymentConfirmed,
                                     paidAt := Some ''2024-01-01T00:00:00.000Z''\<rparr>),
          [released_order\<lparr>status := PaymentConfirmed,
                           paidAt := Some ''2024-01-01T00:00:00.000Z''\<rparr>])"
  by (simp add: confirm_def released_order_def demo_order_def demo_env_def Let_def)







section \<open>Creating an order\<close>

lemma find_first:
  "k \<in> set xs \<Longrightarrow> P k \<Longrightarrow> \<forall>j\<in>set (takeWhile (\<lambda>j. j \<noteq> k) xs). \<not> P j \<Longrightarrow> find P xs = Some k"
  by (induction xs) auto


lemma absent_or_blank_missing:
  assumes "v = JUndefined \<or> (\<exists>s. v = JStr s \<and> trim s = [])"
  shows "field_missing v"
  using assms by (auto simp: field_missing_def)

text \<open>
  Claim C4: when one of the six required fields is absent, or empty once trimmed,
  the submission is answered 400 with a message that names the field, and no order is
  stored.

  The loop over the required fields stops at the first one that fails its test, so
  the message names the first missing field in the order role, source, firstName,
  lastName, email, phone: that is the field \<open>k\<close> whenever no required field before
  \<open>k\<close> is missing too.
\<close>

theorem submit_missing_field:
  assumes "k \<in> set required"
    and "b k = JUndefined \<or> (\<exists>s. b k = JStr s \<and> trim s = [])"
  shows "\<exists>k'. k' \<in> set required \<and> field_missing (b k')
            \<and> submit e b store = (JsonError 400 (''Missing field: '' @ k'), store)
            \<and> ((\<forall>j\<in>set (takeWhile (\<lambda>j. j \<noteq> k) required). \<not> field_missing (b j)) \<longrightarrow> k' = k)"
proof -
  have miss: "field_missing (b k)"
    using assms(2) by (rule absent_or_blank_missing)
  with assms(1) have "find (\<lambda>j. field_missing (b j)) required \<noteq> None"
    by (auto simp: find_None_iff)
  then obtain k' where k': "find (\<lambda>j. field_missing (b j)) required = Some k'"
    by auto
  then have "k' \<in> set required" "field_missing (b k')"
    by (auto simp: find_Some_iff)
  moreover from k' have "submit e b store = (JsonError 400 (''Missing field: '' @ k'), store)"
    by (simp add: submit_def)
  moreover have "(\<forall>j\<in>set (takeWhile (\<lambda>j. j \<noteq> k) required). \<not> field_missing (b j)) \<longrightarrow> k' = k"
    using find_first[of k required "\<lambda>j. field_missing (b j)"] assms(1) miss k' by auto
  ultimately show ?thesis by blast
qed

theorem submit_missing_field_witness:
  "submit demo_env (form no_email_fields) [demo_order]
     = (JsonError 400 ''Missing field: email'', [demo_order])"
proof -
  have k: "''email'' \<in> set required"
    by (simp add: required_def)
  have blank: "form no_email_fields ''email'' = JUndefined
      \<or> (\<exists>s. form no_email_fields ''email'' = JStr s \<and> trim s = [])"
    by (simp add: form_def no_email_fields_def trim_eval)
  have present: "\<forall>j\<in>set (takeWhile (\<lambda>j. j \<noteq> ''email'') required).
                   \<not> field_missing (form no_email_fields j)"
    by (simp add: required_def form_def no_email_fields_def field_missing_def trim_eval)
  from submit_missing_field[where k = "''email''" and b = "form no_email_fields"
         and e = demo_env and store = "[demo_order]", OF k blank] present
  show ?thesis by auto
qed





lemma alphabet_L_letters:
  "set alphabet_L = set ''ABCDEFGHIJKLMNOPQRSTUVWXYZ'' - {CHR ''I'', CHR ''O''}"
  by (auto simp: alphabet_L_def)

lemma demo_fields_present:
  "\<not> field_missing (JStr ''buyer'')" "\<not> field_missing (JStr ''web'')"
  "\<not> field_missing (JStr ''Ann'')" "\<not> field_missing (JStr ''Lee'')"
  "\<not> field_missing (JStr ''ann@example.com'')" "\<not> field_missing (JStr ''555-0100'')"
  by (simp_all add: field_missing_def trim_eval)










section \<open>The deposit and the total\<close>

lemma toNum_150: "toNum (JStr ''150'') = Fin 150" "toNum (JNum (Fin 150)) = Fin 150"
  by (simp_all add: parse_eval num_eval print_eval)

lemma toNum_1500: "toNum (JStr ''1500'') = Fin 1500" "toNum (JNum (Fin 1500)) = Fin 1500"
  by (simp_all add: parse_eval num_eval print_eval)

lemma toNum_str_1000: "toNum (JStr ''1000'') = Fin 1000"
  by (simp add: parse_eval num_eval)

lemma percent_150_valid: "find (\<lambda>k. field_missing (form percent_150_fields k)) required = None"
  by (simp add: required_def form_def percent_150_fields_def demo_fields_def
       demo_fields_present)

lemma amount_1500_valid: "find (\<lambda>k. field_missing (form amount_1500_fields k)) required = None"
  by (simp add: required_def form_def amount_1500_fields_def demo_fields_def
       demo_fields_present)

text \<open>
  Claim C6: with a known total, the calculated deposit is never above the total: a
  percentage deposit total \<open>\<times>\<close> (value / 100) does not exceed it, and an amount deposit
  is clamped to the range from 0 to the total.

  \<open>buildPaymentPlanSummary\<close> has neither bound. A submission of a buyer with the plan
  \<open>down\<close>, the total 1000 and the deposit 150 percent stores the calculated deposit
  1500; so does the deposit amount 1500.
\<close>

theorem submit_deposit_above_total:
  "map (\<lambda>x. (totalPrice x, calculatedDeposit x))
       (snd (submit demo_env (form percent_150_fields) []))
     = [(JNum (Fin 1000), Some (Fin 1500))]
   \<and> map (\<lambda>x. (totalPrice x, calculatedDeposit x))
       (snd (submit demo_env (form amount_1500_fields) []))
     = [(JNum (Fin 1000), Some (Fin 1500))]"
proof -
  have p: "form percent_150_fields ''role'' = JStr ''buyer''"
    "form percent_150_fields ''paymentPlan'' = JStr ''down''"
    "form percent_150_fields ''depositType'' = JStr ''percent''"
    "form percent_150_fields ''depositValue'' = JStr ''150''"
    "form percent_150_fields ''totalPrice'' = JStr ''1000''"
    by (simp_all add: form_def percent_150_fields_def demo_fields_def)
  have a: "form amount_1500_fields ''role'' = JStr ''buyer''"
    "form amount_1500_fields ''paymentPlan'' = JStr ''down''"
    "form amount_1500_fields ''depositType'' = JStr ''amount''"
    "form amount_1500_fields ''depositValue'' = JStr ''1500''"
    "form amount_1500_fields ''totalPrice'' = JStr ''1000''"
    by (simp_all add: form_def amount_1500_fields_def demo_fields_def)
  have "map (\<lambda>x. (totalPrice x, calculatedDeposit x))
          (snd (submit demo_env (form percent_150_fields) []))
        = [(JNum (Fin 1000), Some (Fin 1500))]"
    by (simp add: submit_def percent_150_valid p lower_eval toNum_150 toNum_str_1000
         toNum_1000 buildPaymentPlanSummary_def demo_env_def Let_def num_eval)
  moreover
  have "map (\<lambda>x. (totalPrice x, calculatedDeposit x))
          (snd (submit demo_env (form amount_1500_fields) []))
        = [(JNum (Fin 1000), Some (Fin 1500))]"
    by (simp add: submit_def amount_1500_valid a lower_eval toNum_1500 toNum_str_1000
         toNum_1000 buildPaymentPlanSummary_def demo_env_def Let_def num_eval)
  ultimately show ?thesis by simp
qed

section \<open>The deposit of a total that prints in exponent notation\<close>

lemma toNum_50: "toNum (JStr ''50'') = Fin 50" "toNum (JNum (Fin 50)) = Fin 50"
  by (simp_all add: parse_eval print_eval)

lemma toNum_huge_string:
  "toNum (JStr ''1000000000000000000000'') = Fin 1000000000000000000000"
  by (simp add: parse_eval num_eval)

lemma num_to_String_huge: "num_to_String (Fin 1000000000000000000000) = ''1e+21''"
  by (simp add: print_eval)

lemma toNum_huge_number: "toNum (JNum (Fin 1000000000000000000000)) = Fin 121"
  by (simp add: parse_eval num_eval num_to_String_huge)

lemma huge_total_valid: "find (\<lambda>k. field_missing (form huge_total_fields k)) required = None"
  by (simp add: required_def form_def huge_total_fields_def demo_fields_def
       demo_fields_present)

text \<open>
  Claim C5: for a buyer with the plan \<open>down\<close> and the deposit type \<open>percent\<close>, the
  calculated deposit is total \<open>\<times>\<close> (value / 100) when the total is known and not zero
  (20 percent of 1000 is 200), and \<open>null\<close>, with a summary that asks for the total,
  when the total is zero or unknown.

  The calculator converts its fields with \<open>toNum\<close> also when they are numbers already:
  \<open>POST /submit\<close> has converted the total of the form and stores the number, and the
  calculator converts that number once more, from the text that \<open>String\<close> prints for
  it. A number from \<open>10^21\<close> prints in exponent notation, \<open>1e+21\<close>, of which \<open>toNum\<close>
  keeps the digits \<open>121\<close>. For the total 1000000000000000000000 and the value 50 the
  order stores the total \<open>10^21\<close> and the deposit 60.5, which is 121 \<open>\<times>\<close> (50 / 100)
  and not total \<open>\<times>\<close> (value / 100).
\<close>

theorem submit_deposit_of_huge_total:
  "map (\<lambda>x. (totalPrice x, depositValue x, calculatedDeposit x))
       (snd (submit demo_env (form huge_total_fields) []))
     = [(JNum (Fin (10 ^ 21)), JNum (Fin 50), Some (Fin (121 / 2)))]"
proof -
  have f: "form huge_total_fields ''role'' = JStr ''buyer''"
    "form huge_total_fields ''paymentPlan'' = JStr ''down''"
    "form huge_total_fields ''depositType'' = JStr ''percent''"
    "form huge_total_fields ''depositValue'' = JStr ''50''"
    "form huge_total_fields ''totalPrice'' = JStr ''1000000000000000000000''"
    by (simp_all add: form_def huge_total_fields_def demo_fields_def)
  have d: "js_mul (Fin 121) (js_div (Fin 50) (Fin 100)) = Fin (121 / 2)"
    by (simp add: num_eval)
  have s: "buildPaymentPlanSummary
             \<lparr>role = JStr ''buyer'', paymentPlan = JStr ''down'', depositType = JStr ''percent'',
              depositValue = JNum (Fin 50), totalPrice = JNum (Fin 1000000000000000000000)\<rparr>
           = Inr \<lparr>plan_text = ''Buyer selected down payment '' @ em_dash @ '' '' @
                       num_to_String (Fin 50) @ ''% of '' @ money (Fin 121) @ '' ('' @
                       money (Fin (121 / 2)) @ '')'',
                  plan_calculatedDeposit = Some (Fin (121 / 2)), plan_totalPrice = Fin 121\<rparr>"
    using d
    by (simp add: buildPaymentPlanSummary_def lower_eval toNum_50 toNum_huge_number Let_def
          del: js_mul.simps js_div.simps)
  show ?thesis
    by (simp add: submit_def huge_total_valid f lower_eval toNum_50 toNum_huge_string
         s demo_env_def Let_def)
qed

text \<open>
  The invoice server does bound its down payment: an amount deposit lies between 0 and
  the amount of the invoice, and a percentage is brought into the range from 0 to 100
  before it is applied.
\<close>

lemma downPayment_amount_clamped:
  assumes "0 \<le> a"
  shows "\<exists>p. fst (downPaymentCalc ''milestone'' ''amount'' (Fin d) (Fin a)) = Fin p
             \<and> 0 \<le> p \<and> p \<le> a"
  using assms by (simp add: downPaymentCalc_def Let_def)

lemma downPayment_percent_clamped:
  "\<exists>pct. 0 \<le> pct \<and> pct \<le> 100
      \<and> fst (downPaymentCalc ''milestone'' ''percent'' (Fin d) (Fin a))
          = plus_toFixed2 (js_mul (Fin a) (js_div (Fin pct) (Fin 100)))"
proof -
  have "fst (downPaymentCalc ''milestone'' ''percent'' (Fin d) (Fin a))
          = plus_toFixed2 (js_mul (Fin a) (js_div (Fin (min 100 (max 0 d))) (Fin 100)))"
    by (simp add: downPaymentCalc_def Let_def)
  moreover have "0 \<le> min 100 (max 0 d)" "min 100 (max 0 d) \<le> 100"
    by simp_all
  ultimately show ?thesis by blast
qed

end
